theory Spec2Isabelle
  imports Complex_Main "HOL-Library.List_Lexorder" "HOL-Library.Char_ord"
begin

section \<open>Python string helpers used by the shell\<close>

text \<open>
  Python \<open>str\<close> values are modelled as \<open>string\<close>: a character is a code point below 256
  (ASCII and Latin-1), and \<open>len\<close> counts characters.
\<close>

definition digit_char :: "nat \<Rightarrow> char" where
  "digit_char d = ''0123456789'' ! d"

text \<open>\<open>str(n)\<close> (and \<open>"%s" % n\<close>) for a non-negative Python int: its decimal digits.\<close>

function str_nat :: "nat \<Rightarrow> string" where
  "str_nat n = (if n < 10 then [digit_char n] else str_nat (n div 10) @ [digit_char (n mod 10)])"
  by pat_completeness auto
termination
  by (relation "measure id") auto

declare str_nat.simps [simp del]

text \<open>\<open>s.rstrip('\n')\<close>: every trailing line feed is removed.\<close>

definition rstrip_nl :: "string \<Rightarrow> string" where
  "rstrip_nl s = rev (dropWhile (\<lambda>c. c = CHR 0x0A) (rev s))"

text \<open>\<open>s.strip()\<close>: white space (the code points below 256 for which \<open>str.isspace\<close> holds)
  is removed at both ends.\<close>

definition is_space :: "char \<Rightarrow> bool" where
  "is_space c = (of_char c \<in> {9, 10, 11, 12, 13, 28, 29, 30, 31, 32, 133, 160 :: nat})"

definition strip :: "string \<Rightarrow> string" where
  "strip s = rev (dropWhile is_space (rev (dropWhile is_space s)))"

text \<open>\<open>sub in s\<close> and \<open>s.startswith(p)\<close>.\<close>

definition startswith :: "string \<Rightarrow> string \<Rightarrow> bool" where
  "startswith s p = (take (length p) s = p)"

fun contains :: "string \<Rightarrow> string \<Rightarrow> bool" where
  "contains sub [] = (sub = [])"
| "contains sub (c # cs) = (startswith (c # cs) sub \<or> contains sub cs)"

text \<open>\<open>s.split(sep)\<close> for a separator of one character: empty fields are kept.\<close>

fun split_on :: "char \<Rightarrow> string \<Rightarrow> string list" where
  "split_on sep [] = [[]]"
| "split_on sep (c # cs) =
     (if c = sep then [] # split_on sep cs
      else (case split_on sep cs of [] \<Rightarrow> [[c]] | w # ws \<Rightarrow> (c # w) # ws))"

text \<open>\<open>s.lower()\<close>: the capitals A to Z and the Latin-1 capitals U+00C0 to U+00DE (the
  multiplication sign U+00D7 apart) move up by 32.\<close>

definition lower_char :: "char \<Rightarrow> char" where
  "lower_char c =
     (let n = (of_char c :: nat)
      in if (65 \<le> n \<and> n \<le> 90) \<or> (192 \<le> n \<and> n \<le> 222 \<and> n \<noteq> 215) then char_of (n + 32) else c)"

definition lower :: "string \<Rightarrow> string" where
  "lower s = map lower_char s"

text \<open>\<open>s.replace(old, "")\<close>: every occurrence of \<open>old\<close>, scanning from the left, is removed.\<close>

function remove_all :: "string \<Rightarrow> string \<Rightarrow> string" where
  "remove_all old [] = []"
| "remove_all old (c # cs) =
     (if old \<noteq> [] \<and> startswith (c # cs) old
      then remove_all old (drop (length old) (c # cs))
      else c # remove_all old cs)"
  by pat_completeness auto
termination
  by (relation "measure (\<lambda>(old, s). length s)") auto

section \<open>Payload combinator: \<open>__build_fuzzing_dicts\<close>\<close>

text \<open>
  A placeholder binding is a Python dict from placeholder name to payload. The file system
  is a map from a path to what \<open>readlines()\<close> returns for it; opening a missing path
  raises, which the enclosing \<open>do_fuzz\<close> reports.
\<close>

type_synonym binding = "string \<rightharpoonup> string"

type_synonym filesystem = "string \<rightharpoonup> string list"

datatype file_error = FileNotFoundError string

definition payload_placeholder_key :: "nat \<Rightarrow> string" where
  "payload_placeholder_key current_position = ''payload_'' @ str_nat current_position"

text \<open>
  The inner loops. \<open>new_dict = {key: payload}; new_dict.update(payload_combination)\<close>:
  the entries of the existing binding win over the new key.
\<close>

definition seed_combinations :: "string \<Rightarrow> string list \<Rightarrow> binding list" where
  "seed_combinations key payloads = map (\<lambda>payload. [key \<mapsto> rstrip_nl payload]) payloads"

definition expand_combinations :: "string \<Rightarrow> string list \<Rightarrow> binding list \<Rightarrow> binding list" where
  "expand_combinations key payloads payload_combinations =
     concat (map (\<lambda>payload_combination.
        map (\<lambda>payload. [key \<mapsto> rstrip_nl payload] ++ payload_combination) payloads)
       payload_combinations)"

fun build_fuzzing_dicts ::
  "filesystem \<Rightarrow> string list \<Rightarrow> binding list \<Rightarrow> nat \<Rightarrow> file_error + binding list" where
  "build_fuzzing_dicts fs [] payload_combinations current_position = Inr payload_combinations"
| "build_fuzzing_dicts fs (current_payload_file # payload_files_list) payload_combinations current_position =
     (case fs current_payload_file of
        None \<Rightarrow> Inl (FileNotFoundError current_payload_file)
      | Some payloads \<Rightarrow>
          (if length payload_combinations = 0
           then build_fuzzing_dicts fs payload_files_list
                  (payload_combinations @ seed_combinations (payload_placeholder_key current_position) payloads)
                  (current_position + 1)
           else build_fuzzing_dicts fs payload_files_list
                  (expand_combinations (payload_placeholder_key current_position) payloads payload_combinations)
                  (current_position + 1)))"

text \<open>The call made by \<open>do_fuzz\<close>: empty accumulator, first position 1.\<close>

definition combine :: "filesystem \<Rightarrow> string list \<Rightarrow> file_error + binding list" where
  "combine fs payload_files = build_fuzzing_dicts fs payload_files [] 1"

text \<open>
  The Cartesian product as the specification words it: one tuple per element of the product
  of the files' line lists, the first file varying slowest, and each tuple read as the binding
  of \<open>payload_1 .. payload_N\<close> to its components.
\<close>

fun cartesian_product :: "'a list list \<Rightarrow> 'a list list" where
  "cartesian_product [] = [[]]"
| "cartesian_product (ls # lss) = concat (map (\<lambda>l. map (\<lambda>t. l # t) (cartesian_product lss)) ls)"

definition binding_of_tuple :: "string list \<Rightarrow> binding" where
  "binding_of_tuple t = map_of (zip (map payload_placeholder_key [1 ..< Suc (length t)]) t)"

definition spec_combine :: "string list list \<Rightarrow> binding list" where
  "spec_combine files = map binding_of_tuple (cartesian_product (map (map rstrip_nl) files))"

section \<open>Exceptions, the websocket library and the shell state\<close>

text \<open>
  The exception classes the shell tells apart. \<open>WebSocketConnectionClosedException\<close> is a
  subclass of \<open>WebSocketException\<close>; every class here is a subclass of \<open>Exception\<close>.
  \<open>WebSocketException\<close> stands for an instance that is not a connection-closed one.
\<close>

datatype exn_class =
    WebSocketConnectionClosedException
  | WebSocketException
  | IOError
  | AttributeError
  | IndexError
  | TypeError
  | KeyError
  | OtherException

datatype exn = Exn (exn_class: exn_class) (exn_text: string)

text \<open>\<open>except (WebSocketException, IOError)\<close>, \<open>except IOError\<close> and
  \<open>except WebSocketConnectionClosedException\<close>.\<close>

definition is_WebSocketException_or_IOError :: "exn \<Rightarrow> bool" where
  "is_WebSocketException_or_IOError e =
     (exn_class e = WebSocketException \<or> exn_class e = WebSocketConnectionClosedException \<or> exn_class e = IOError)"

definition is_IOError :: "exn \<Rightarrow> bool" where
  "is_IOError e = (exn_class e = IOError)"

definition is_WebSocketConnectionClosedException :: "exn \<Rightarrow> bool" where
  "is_WebSocketConnectionClosedException e = (exn_class e = WebSocketConnectionClosedException)"

text \<open>What a statement does: it completes, it raises an \<open>Exception\<close>, or (argparse rejecting
  a command line) it raises \<open>SystemExit\<close>, which no \<open>except Exception\<close> catches.\<close>

datatype 'a result = Return 'a | Raise exn | SystemExit

text \<open>The namespace returned by the parser of \<open>connect\<close>.\<close>

record connect_args =
  endpoint :: "string option"
  origin :: "string option"
  extra_http_headers :: "string option"
  subprotocols :: "string option"

text \<open>The keyword arguments of \<open>create_connection\<close>.\<close>

record connect_request =
  url :: "string option"
  timeout :: nat
  header :: "(string \<times> string) list"
  req_origin :: "string option"
  req_subprotocols :: "string list"

type_synonym conn = nat

datatype call = Open connect_request | Send conn string | Recv conn | Close conn

text \<open>
  The libraries the shell calls are parameters: argparse (\<open>None\<close> when it rejects the line
  and exits), the websocket client, whose answer to a call may depend on every call made
  before it, \<open>time.clock\<close> (\<open>None\<close> on an interpreter that has no such function: it was
  removed in Python 3.8, where the call raises \<open>AttributeError\<close>) and the built-in
  \<open>round(x, 2)\<close>.
\<close>

record env =
  parse_args :: "string list \<Rightarrow> connect_args option"
  create_connection :: "call list \<Rightarrow> connect_request \<Rightarrow> exn + conn"
  ws_send :: "call list \<Rightarrow> conn \<Rightarrow> string \<Rightarrow> exn option"
  ws_recv :: "call list \<Rightarrow> conn \<Rightarrow> exn + string option"
  ws_close :: "call list \<Rightarrow> conn \<Rightarrow> exn option"
  time_clock :: "(call list \<Rightarrow> rat) option"
  round2 :: "rat \<Rightarrow> rat"

text \<open>One entry of \<open>self.__exchanges\<close>. \<open>RESPONSE\<close> is \<open>None\<close> when \<open>recv()\<close> returned
  \<open>None\<close>; \<open>RESPONSE_LENGTH\<close> is \<open>None\<close> while the key is not set.\<close>

record exchange =
  REQUEST :: string
  RESPONSE :: "string option"
  IS_ERROR :: bool
  RESPONSE_TIME :: rat
  REQUEST_LENGTH :: nat
  RESPONSE_LENGTH :: "nat option"

text \<open>The lines the modelled commands print, with the values they format.\<close>

datatype line =
    MissingParameters
  | Connecting
  | Connected
  | ConnectionStateCannotBeConfirmed
  | ConnectionFailed string
  | CheckConnection
  | ConnectionIsAvailable
  | SendingMessages
  | ExchangeSuccessful nat
  | ExchangeMeetError nat string
  | MessagesSent nat nat int
  | SendIncreasingLength
  | LengthReached nat
  | MaxLengthIdentified int
  | MaxLengthNotIdentified nat
  | ProbingFailed string
  | PerformInitialConnection
  | PerformProbing
  | ConnectionsReached nat
  | MaxConnectionsIdentified int
  | MaxConnectionsNotIdentified nat
  | ReleaseConnections
  | ConnectionsReleased int nat
  | ConnectionClosed
  | CloseConnectionFailed string

text \<open>The shell object, together with the calls made to the websocket library so far and
  the lines printed so far. \<open>self.__exchanges\<close> is a dict keyed by the exchange number; it
  is kept as the list of its items in insertion order.\<close>

record shell =
  client :: "conn option"
  exchanges :: "(nat \<times> exchange) list"
  client_connection_parameters :: "string option"
  history :: "call list"
  printed :: "line list"

definition print :: "line \<Rightarrow> shell \<Rightarrow> shell" where
  "print l sh = sh\<lparr>printed := printed sh @ [l]\<rparr>"

definition called :: "call \<Rightarrow> shell \<Rightarrow> shell" where
  "called c sh = sh\<lparr>history := history sh @ [c]\<rparr>"

definition quote :: char where
  "quote = CHR 0x27"

definition none_has_no_attribute :: "string \<Rightarrow> exn" where
  "none_has_no_attribute a =
     Exn AttributeError ([quote] @ ''NoneType'' @ [quote] @ '' object has no attribute '' @ [quote] @ a @ [quote])"

text \<open>\<open>self.__client.send(msg)\<close> and \<open>self.__client.recv()\<close>; on \<open>None\<close> the attribute
  lookup raises.\<close>

definition client_send :: "env \<Rightarrow> string \<Rightarrow> shell \<Rightarrow> unit result \<times> shell" where
  "client_send E msg sh =
     (case client sh of
        None \<Rightarrow> (Raise (none_has_no_attribute ''send''), sh)
      | Some c \<Rightarrow>
          (case ws_send E (history sh) c msg of
             Some e \<Rightarrow> (Raise e, called (Send c msg) sh)
           | None \<Rightarrow> (Return (), called (Send c msg) sh)))"

definition client_recv :: "env \<Rightarrow> shell \<Rightarrow> string option result \<times> shell" where
  "client_recv E sh =
     (case client sh of
        None \<Rightarrow> (Raise (none_has_no_attribute ''recv''), sh)
      | Some c \<Rightarrow>
          (case ws_recv E (history sh) c of
             Inl e \<Rightarrow> (Raise e, called (Recv c) sh)
           | Inr r \<Rightarrow> (Return r, called (Recv c) sh)))"

section \<open>Connection manager: \<open>do_connect\<close>, \<open>__check_connection_availability\<close>, \<open>do_disconnect\<close>\<close>

text \<open>The custom headers map: \<open>extra_headers[parts[0]] = parts[1]\<close> keeps the place of a key
  that is already there.\<close>

fun dict_set :: "('k \<times> 'v) list \<Rightarrow> 'k \<Rightarrow> 'v \<Rightarrow> ('k \<times> 'v) list" where
  "dict_set [] k v = [(k, v)]"
| "dict_set ((k', v') # d) k v = (if k' = k then (k, v) # d else (k', v') # dict_set d k v)"

definition section_sign :: char where
  "section_sign = CHR 0xA7"

fun build_extra_headers :: "string list \<Rightarrow> (string \<times> string) list \<Rightarrow> exn + (string \<times> string) list" where
  "build_extra_headers [] extra_headers = Inr extra_headers"
| "build_extra_headers (pair # pairs) extra_headers =
     (case split_on CHR ''='' pair of
        p0 # p1 # _ \<Rightarrow> build_extra_headers pairs (dict_set extra_headers p0 p1)
      | _ \<Rightarrow> Inl (Exn IndexError ''list index out of range''))"

text \<open>Lines 77 to 90: from the parsed arguments to the arguments of \<open>create_connection\<close>.\<close>

definition connection_request :: "connect_args \<Rightarrow> exn + connect_request" where
  "connection_request args =
     (case (case extra_http_headers args of
              None \<Rightarrow> Inr []
            | Some hs \<Rightarrow> build_extra_headers (split_on section_sign hs) []) of
        Inl e \<Rightarrow> Inl e
      | Inr extra_headers \<Rightarrow>
          Inr \<lparr>url = endpoint args, timeout = 10, header = extra_headers, req_origin = origin args,
               req_subprotocols = (case subprotocols args of None \<Rightarrow> [] | Some ps \<Rightarrow> split_on section_sign ps)\<rparr>)"

definition connection_failed :: "exn \<Rightarrow> shell \<Rightarrow> unit result \<times> shell" where
  "connection_failed error sh = (Return (), print (ConnectionFailed (exn_text error)) sh)"

definition do_connect :: "env \<Rightarrow> string option \<Rightarrow> shell \<Rightarrow> unit result \<times> shell" where
  "do_connect E line sh =
     (case line of
        None \<Rightarrow> (Return (), print MissingParameters sh)
      | Some l \<Rightarrow>
          if strip l = [] \<or> \<not> contains ''-t'' l then (Return (), print MissingParameters sh)
          else
            (case parse_args E (split_on CHR '' '' l) of
               None \<Rightarrow> (SystemExit, sh)
             | Some args \<Rightarrow>
                 (case connection_request args of
                    Inl error \<Rightarrow> connection_failed error sh
                  | Inr req \<Rightarrow>
                      (let sh1 = print Connecting sh in
                       case create_connection E (history sh1) req of
                         Inl error \<Rightarrow> connection_failed error (called (Open req) sh1)
                       | Inr c \<Rightarrow>
                           (let sh2 = (called (Open req) sh1)\<lparr>client := Some c\<rparr> in
                            case client_send E ''hello'' sh2 of
                              (Raise error, sh3) \<Rightarrow> connection_failed error sh3
                            | (SystemExit, sh3) \<Rightarrow> (SystemExit, sh3)
                            | (Return _, sh3) \<Rightarrow>
                                (case client_recv E sh3 of
                                   (Raise error, sh4) \<Rightarrow> connection_failed error sh4
                                 | (SystemExit, sh4) \<Rightarrow> (SystemExit, sh4)
                                 | (Return None, sh4) \<Rightarrow>
                                     (Return (), print ConnectionStateCannotBeConfirmed sh4)
                                 | (Return (Some _), sh4) \<Rightarrow>
                                     (Return (), print Connected (sh4\<lparr>client_connection_parameters := Some l\<rparr>))))))))"

definition check_connection_availability :: "env \<Rightarrow> shell \<Rightarrow> unit result \<times> shell" where
  "check_connection_availability E sh =
     (let sh0 = print CheckConnection sh in
      if client sh0 = None then do_connect E (client_connection_parameters sh0) sh0
      else
        (case client_send E ''TestAliveState'' sh0 of
           (Raise wse, sh1) \<Rightarrow>
             if is_WebSocketConnectionClosedException wse
             then do_connect E (client_connection_parameters sh1) sh1
             else (Raise wse, sh1)
         | (SystemExit, sh1) \<Rightarrow> (SystemExit, sh1)
         | (Return _, sh1) \<Rightarrow>
             (case client_recv E sh1 of
                (Raise wse, sh2) \<Rightarrow>
                  if is_WebSocketConnectionClosedException wse
                  then do_connect E (client_connection_parameters sh2) sh2
                  else (Raise wse, sh2)
              | (SystemExit, sh2) \<Rightarrow> (SystemExit, sh2)
              | (Return None, sh2) \<Rightarrow> (Return (), sh2)
              | (Return (Some _), sh2) \<Rightarrow> (Return (), print ConnectionIsAvailable sh2))))"

definition do_disconnect :: "env \<Rightarrow> shell \<Rightarrow> shell" where
  "do_disconnect E sh =
     (case client sh of
        None \<Rightarrow> sh
      | Some c \<Rightarrow>
          (case ws_close E (history sh) c of
             Some error \<Rightarrow> print (CloseConnectionFailed (exn_text error)) (called (Close c) sh)
           | None \<Rightarrow> print ConnectionClosed ((called (Close c) sh)\<lparr>client := None\<rparr>)))"

section \<open>Bulk exchange driver: \<open>__send_messages\<close>\<close>






section \<open>Limit probers\<close>

definition max_probing_limit :: nat where
  "max_probing_limit = 1000000000"

definition probing_failed :: "exn \<Rightarrow> shell \<Rightarrow> unit result \<times> shell" where
  "probing_failed error sh = (Return (), print (ProbingFailed (exn_text error)) sh)"

text \<open>The loop \<open>for idx in range(10, max_probing_limit, 10)\<close>; it returns \<open>max_length\<close>.\<close>

function length_probe_loop :: "env \<Rightarrow> nat \<Rightarrow> shell \<Rightarrow> int result \<times> shell" where
  "length_probe_loop E idx sh =
     (if idx < max_probing_limit then
        (let sh1 = (if idx mod 1000 = 0 then print (LengthReached idx) sh else sh) in
         case client_send E (replicate idx CHR ''T'') sh1 of
           (Return _, sh2) \<Rightarrow> length_probe_loop E (idx + 10) sh2
         | (Raise e, sh2) \<Rightarrow>
             if is_WebSocketException_or_IOError e then (Return (int idx - 10), sh2) else (Raise e, sh2)
         | (SystemExit, sh2) \<Rightarrow> (SystemExit, sh2))
      else (Return 0, sh))"
  by pat_completeness auto
termination
  by (relation "measure (\<lambda>(E, idx, sh). max_probing_limit - idx)") auto

declare length_probe_loop.simps [simp del]

definition do_probe_request_length_limit :: "env \<Rightarrow> shell \<Rightarrow> unit result \<times> shell" where
  "do_probe_request_length_limit E sh =
     (case check_connection_availability E sh of
        (Raise error, sh1) \<Rightarrow> probing_failed error sh1
      | (SystemExit, sh1) \<Rightarrow> (SystemExit, sh1)
      | (Return _, sh1) \<Rightarrow>
          (case length_probe_loop E 10 (print SendIncreasingLength sh1) of
             (Raise error, sh2) \<Rightarrow> probing_failed error sh2
           | (SystemExit, sh2) \<Rightarrow> (SystemExit, sh2)
           | (Return max_length, sh2) \<Rightarrow>
               if max_length > 0 then (Return (), print (MaxLengthIdentified max_length) sh2)
               else (Return (), print (MaxLengthNotIdentified max_probing_limit) sh2)))"

text \<open>The loop \<open>for idx in range(1, max_probing_limit)\<close>; it returns \<open>max_connection\<close> and
  \<open>connections_references_list\<close>.\<close>

function connection_probe_loop ::
  "env \<Rightarrow> connect_request \<Rightarrow> nat \<Rightarrow> conn list \<Rightarrow> shell \<Rightarrow> (int \<times> conn list) result \<times> shell" where
  "connection_probe_loop E req idx connections_references_list sh =
     (if idx < max_probing_limit then
        (let sh1 = (if idx mod 10 = 0 then print (ConnectionsReached idx) sh else sh) in
         case create_connection E (history sh1) req of
           Inr c \<Rightarrow>
             connection_probe_loop E req (idx + 1) (connections_references_list @ [c]) (called (Open req) sh1)
         | Inl e \<Rightarrow>
             if is_WebSocketException_or_IOError e
             then (Return (int idx - 1, connections_references_list), called (Open req) sh1)
             else (Raise e, called (Open req) sh1))
      else (Return (0, connections_references_list), sh))"
  by pat_completeness auto
termination
  by (relation "measure (\<lambda>(E, req, idx, cs, sh). max_probing_limit - idx)") auto

declare connection_probe_loop.simps [simp del]

text \<open>The release loop; it returns \<open>connection_not_released_count\<close>.\<close>

fun release_connections :: "env \<Rightarrow> conn list \<Rightarrow> nat \<Rightarrow> shell \<Rightarrow> nat result \<times> shell" where
  "release_connections E [] connection_not_released_count sh = (Return connection_not_released_count, sh)"
| "release_connections E (connection # connections) connection_not_released_count sh =
     (case ws_close E (history sh) connection of
        None \<Rightarrow> release_connections E connections connection_not_released_count (called (Close connection) sh)
      | Some e \<Rightarrow>
          if is_IOError e
          then release_connections E connections (connection_not_released_count + 1) (called (Close connection) sh)
          else (Raise e, called (Close connection) sh))"

definition do_probe_request_connection_limit :: "env \<Rightarrow> shell \<Rightarrow> unit result \<times> shell" where
  "do_probe_request_connection_limit E sh =
     (case client_connection_parameters sh of
        None \<Rightarrow> (Return (), print PerformInitialConnection sh)
      | Some params \<Rightarrow>
          (case parse_args E (split_on CHR '' '' params) of
             None \<Rightarrow> (SystemExit, sh)
           | Some args \<Rightarrow>
               (case connection_request args of
                  Inl error \<Rightarrow> probing_failed error sh
                | Inr req \<Rightarrow>
                    (case connection_probe_loop E req 1 [] (print PerformProbing sh) of
                       (Raise error, sh1) \<Rightarrow> probing_failed error sh1
                     | (SystemExit, sh1) \<Rightarrow> (SystemExit, sh1)
                     | (Return (max_connection, connections_references_list), sh1) \<Rightarrow>
                         (let sh2 = (if max_connection > 0
                                     then print (MaxConnectionsIdentified max_connection) sh1
                                     else print (MaxConnectionsNotIdentified max_probing_limit) sh1)
                          in case release_connections E connections_references_list 0 (print ReleaseConnections sh2) of
                               (Raise error, sh3) \<Rightarrow> probing_failed error sh3
                             | (SystemExit, sh3) \<Rightarrow> (SystemExit, sh3)
                             | (Return connection_not_released_count, sh3) \<Rightarrow>
                                 (Return (),
                                  print (ConnectionsReleased
                                           (int (length connections_references_list) - int connection_not_released_count)
                                           connection_not_released_count) sh3))))))"

section \<open>Channel capability prober: the endpoint that is tested\<close>

text \<open>Lines 491 to 497 of \<open>do_probe_connection_channels_supported\<close>: the message prefix, the
  protocol to test and the endpoint handed to \<open>create_connection\<close>.\<close>

definition complementary_endpoint :: "string \<Rightarrow> string \<times> string \<times> string" where
  "complementary_endpoint endpoint_arg =
     (let target_endpoint = lower endpoint_arg;
          (msg_prefix, protocol_to_test) =
            (if startswith target_endpoint ''wss://'' then (''Insecure'', ''ws://'') else (''Secure'', ''wss://''))
      in (msg_prefix, protocol_to_test,
          protocol_to_test @ remove_all ''ws://'' (remove_all ''wss://'' target_endpoint)))"

section \<open>Analyzer: aggregation by response time\<close>

text \<open>\<open>int(x)\<close> on a float truncates toward zero.\<close>

definition py_int :: "rat \<Rightarrow> int" where
  "py_int x = (if 0 \<le> x then \<lfloor>x\<rfloor> else \<lceil>x\<rceil>)"

text \<open>\<open>if k not in d: d[k] = ""\<close> followed by \<open>d[k] += s\<close>, on a dict kept in insertion order.\<close>

fun dict_append :: "('k \<times> string) list \<Rightarrow> 'k \<Rightarrow> string \<Rightarrow> ('k \<times> string) list" where
  "dict_append [] k s = [(k, [] @ s)]"
| "dict_append ((k', v) # d) k s = (if k' = k then (k', v @ s) # d else (k', v) # dict_append d k s)"

fun gather_response_time ::
  "(nat \<times> exchange) list \<Rightarrow> nat list \<Rightarrow> (int \<times> string) list \<Rightarrow> (int \<times> string) list result" where
  "gather_response_time exs [] exchanges_gathered = Return exchanges_gathered"
| "gather_response_time exs (idx # idxs) exchanges_gathered =
     (case map_of exs idx of
        None \<Rightarrow> Raise (Exn KeyError (str_nat idx))
      | Some ex \<Rightarrow>
          gather_response_time exs idxs
            (dict_append exchanges_gathered (py_int (RESPONSE_TIME ex)) ('' '' @ str_nat idx)))"

datatype analysis = NoExchangesAvailable | AggregatedByResponseTime "(int \<times> string) list"

text \<open>The first aggregation of \<open>do_analyze\<close>: \<open>data_to_print\<close> as handed to \<open>tabulate\<close>.
  \<open>OrderedDict(exchanges_gathered)\<close> is iterated in the order the keys were inserted.\<close>

definition analyze_response_time :: "(nat \<times> exchange) list \<Rightarrow> analysis result" where
  "analyze_response_time exs =
     (if length exs = 0 then Return NoExchangesAvailable
      else
        (let total = length exs in
         case gather_response_time exs [0 ..< total] [] of
           Raise e \<Rightarrow> Raise e
         | SystemExit \<Rightarrow> SystemExit
         | Return exchanges_gathered \<Rightarrow>
             Return (AggregatedByResponseTime (map (\<lambda>(k, v). (k, strip v)) exchanges_gathered))))"

section \<open>Export of the exchange history: \<open>__store_exchanges_to_file\<close>\<close>

text \<open>
  Python values as far as the exchanges need them: a dict has int keys (the exchanges) or str
  keys (one exchange), kept as the list of its items in insertion order. The ints are exchange
  numbers and lengths, hence natural numbers.
\<close>

datatype pyval =
    PyNone
  | PyBool bool
  | PyInt nat
  | PyFloat rat
  | PyStr string
  | PyIntDict "(nat \<times> pyval) list"
  | PyStrDict "(string \<times> pyval) list"

datatype json =
    JNull
  | JBool bool
  | JInt nat
  | JFloat rat
  | JString string
  | JObject "(string \<times> json) list"

text \<open>
  Python's \<open>json\<close> module, as its documentation describes it, at the level of the document
  that is written and read (the text in between is not modelled: the document parsed is the
  document written). \<open>json.dumps(obj, sort_keys=True, indent=2)\<close>: a dict becomes an object whose
  members are the items of the dict sorted by key (ints by value, strs by code point), an int
  key becomes its decimal string, \<open>None\<close> becomes \<open>null\<close>, an int and a float stay apart;
  \<open>indent\<close> only adds white space.
\<close>

fun json_dumps :: "pyval \<Rightarrow> json" where
  "json_dumps PyNone = JNull"
| "json_dumps (PyBool b) = JBool b"
| "json_dumps (PyInt n) = JInt n"
| "json_dumps (PyFloat x) = JFloat x"
| "json_dumps (PyStr s) = JString s"
| "json_dumps (PyIntDict d) = JObject (map (\<lambda>(k, v). (str_nat k, json_dumps v)) (sort_key fst d))"
| "json_dumps (PyStrDict d) = JObject (map (\<lambda>(k, v). (k, json_dumps v)) (sort_key fst d))"

text \<open>\<open>json.loads\<close>: an object becomes a dict with str keys, its members in document order, a
  repeated name keeping its first place and its last value.\<close>

definition dict_of_pairs :: "('k \<times> 'v) list \<Rightarrow> ('k \<times> 'v) list" where
  "dict_of_pairs pairs = foldl (\<lambda>d (k, v). dict_set d k v) [] pairs"

fun json_loads :: "json \<Rightarrow> pyval" where
  "json_loads JNull = PyNone"
| "json_loads (JBool b) = PyBool b"
| "json_loads (JInt n) = PyInt n"
| "json_loads (JFloat x) = PyFloat x"
| "json_loads (JString s) = PyStr s"
| "json_loads (JObject members) = PyStrDict (dict_of_pairs (map (\<lambda>(k, v). (k, json_loads v)) members))"

text \<open>An entry of \<open>self.__exchanges\<close> as the dict it is, its keys in the order lines 631/634 and
  637 to 639 set them; and the whole of \<open>self.__exchanges\<close>.\<close>

definition exchange_dict :: "exchange \<Rightarrow> (string \<times> pyval) list" where
  "exchange_dict ex =
     [(''REQUEST'', PyStr (REQUEST ex)),
      (''RESPONSE'', (case RESPONSE ex of None \<Rightarrow> PyNone | Some r \<Rightarrow> PyStr r)),
      (''IS_ERROR'', PyBool (IS_ERROR ex)),
      (''RESPONSE_TIME'', PyFloat (RESPONSE_TIME ex)),
      (''REQUEST_LENGTH'', PyInt (REQUEST_LENGTH ex))]
     @ (case RESPONSE_LENGTH ex of None \<Rightarrow> [] | Some n \<Rightarrow> [(''RESPONSE_LENGTH'', PyInt n)])"

definition py_exchanges :: "(nat \<times> exchange) list \<Rightarrow> pyval" where
  "py_exchanges exs = PyIntDict (map (\<lambda>(idx, ex). (idx, PyStrDict (exchange_dict ex))) exs)"

text \<open>\<open>formatted_data\<close>, the document that \<open>__store_exchanges_to_file\<close> writes to the file.\<close>

definition store_exchanges_to_file :: "shell \<Rightarrow> json" where
  "store_exchanges_to_file sh = json_dumps (py_exchanges (exchanges sh))"

text \<open>A value that is not a dict.\<close>

definition is_scalar :: "pyval \<Rightarrow> bool" where
  "is_scalar v = (case v of PyIntDict _ \<Rightarrow> False | PyStrDict _ \<Rightarrow> False | _ \<Rightarrow> True)"

section \<open>Describing how a transport answers along a run\<close>

text \<open>From the history \<open>h\<close>, successive handshakes for \<open>req\<close> give the connections \<open>cs\<close> in turn
  and the next one raises \<open>e\<close>: the open attempt number \<open>length cs + 1\<close> is the first to fail.\<close>

fun opens_then_fails :: "env \<Rightarrow> call list \<Rightarrow> connect_request \<Rightarrow> conn list \<Rightarrow> exn \<Rightarrow> bool" where
  "opens_then_fails E h req [] e = (create_connection E h req = Inl e)"
| "opens_then_fails E h req (c # cs) e =
     (create_connection E h req = Inr c \<and> opens_then_fails E (h @ [Open req]) req cs e)"

text \<open>From the history \<open>h\<close>, connection \<open>c\<close> takes the filler messages of the sizes \<open>idx\<close>,
  \<open>idx + 10\<close>, ... for \<open>n\<close> steps, and the send of the next size, \<open>idx + 10 * n\<close>, raises \<open>e\<close>.\<close>

fun sends_then_fail :: "env \<Rightarrow> call list \<Rightarrow> conn \<Rightarrow> nat \<Rightarrow> nat \<Rightarrow> exn \<Rightarrow> bool" where
  "sends_then_fail E h c idx 0 e = (ws_send E h c (replicate idx CHR ''T'') = Some e)"
| "sends_then_fail E h c idx (Suc n) e =
     (ws_send E h c (replicate idx CHR ''T'') = None
      \<and> sends_then_fail E (h @ [Send c (replicate idx CHR ''T'')]) c (idx + 10) n e)"

text \<open>From the history \<open>h\<close>, closing the connections \<open>cs\<close> in turn raises nothing but
  \<open>IOError\<close>; and the number of those closes that raise.\<close>

fun release_errors_are_IOError :: "env \<Rightarrow> call list \<Rightarrow> conn list \<Rightarrow> bool" where
  "release_errors_are_IOError E h [] = True"
| "release_errors_are_IOError E h (c # cs) =
     ((case ws_close E h c of None \<Rightarrow> True | Some e \<Rightarrow> is_IOError e)
      \<and> release_errors_are_IOError E (h @ [Close c]) cs)"

fun release_failures :: "env \<Rightarrow> call list \<Rightarrow> conn list \<Rightarrow> nat" where
  "release_failures E h [] = 0"
| "release_failures E h (c # cs) =
     (if ws_close E h c = None then 0 else 1) + release_failures E (h @ [Close c]) cs"

text \<open>The progress lines of the connection probe for the indices from \<open>i\<close> up to \<open>j - 1\<close>.\<close>

definition reached_lines :: "nat \<Rightarrow> nat \<Rightarrow> line list" where
  "reached_lines i j = map ConnectionsReached (filter (\<lambda>idx. idx mod 10 = 0) [i ..< j])"









section \<open>Concrete transports, shells and files\<close>

text \<open>The parsed arguments of \<open>connect -t ws://a\<close>.\<close>

definition plain_args :: connect_args where
  "plain_args = \<lparr>endpoint = Some ''ws://a'', origin = None, extra_http_headers = None, subprotocols = None\<rparr>"

text \<open>A server that answers the liveness messages and rejects every other message.\<close>

definition rejecting_env :: env where
  "rejecting_env =
     \<lparr>parse_args = (\<lambda>ws. Some plain_args),
      create_connection = (\<lambda>h r. Inr (length h)),
      ws_send = (\<lambda>h c msg. if msg = ''TestAliveState'' \<or> msg = ''hello'' then None
                            else Some (Exn WebSocketException ''message too big'')),
      ws_recv = (\<lambda>h c. Inr (Some ''ok'')),
      ws_close = (\<lambda>h c. None),
      time_clock = Some (\<lambda>h. 0),
      round2 = (\<lambda>x. x)\<rparr>"

text \<open>A shell after a validated \<open>connect -t ws://a\<close>, holding connection 0.\<close>

definition connected_shell :: shell where
  "connected_shell =
     \<lparr>client = Some 0, exchanges = [], client_connection_parameters = Some ''-t ws://a'',
      history = [], printed = []\<rparr>"

text \<open>A recorded exchange with the given response time.\<close>

definition timed :: "rat \<Rightarrow> exchange" where
  "timed t = \<lparr>REQUEST = ''m'', RESPONSE = Some ''r'', IS_ERROR = False, RESPONSE_TIME = t,
              REQUEST_LENGTH = 1, RESPONSE_LENGTH = Some 1\<rparr>"

text \<open>Two payload files: an empty one and one holding the single line \<open>a\<close>.\<close>

definition two_files :: filesystem where
  "two_files = [''empty.txt'' \<mapsto> [], ''one.txt'' \<mapsto> [''a'' @ [CHR 0x0A]]]"

text \<open>A server that refuses every handshake.\<close>

definition refusing_env :: env where
  "refusing_env = rejecting_env\<lparr>create_connection := (\<lambda>h r. Inl (Exn IOError ''connection refused''))\<rparr>"

text \<open>A server that completes the handshake, as connection 7, and fails on every send.\<close>

definition unresponsive_env :: env where
  "unresponsive_env =
     rejecting_env\<lparr>create_connection := (\<lambda>h r. Inr 7),
                   ws_send := (\<lambda>h c msg. Some (Exn WebSocketException ''socket is already closed.''))\<rparr>"

text \<open>The request built from \<open>plain_args\<close>.\<close>

definition plain_request :: connect_request where
  "plain_request = \<lparr>url = Some ''ws://a'', timeout = 10, header = [], req_origin = None, req_subprotocols = []\<rparr>"

text \<open>A server that accepts two connections and then refuses with a websocket error; closing
  connection 0 fails with an \<open>IOError\<close>.\<close>

definition limited_env :: env where
  "limited_env =
     rejecting_env\<lparr>create_connection :=
                     (\<lambda>h r. if length h < 2 then Inr (length h)
                            else Inl (Exn WebSocketException ''too many connections'')),
                   ws_close := (\<lambda>h c. if c = 0 then Some (Exn IOError ''broken pipe'') else None)\<rparr>"

text \<open>A client that accepts two connections and fails with an unexpected error on the third.\<close>

definition crashing_env :: env where
  "crashing_env =
     rejecting_env\<lparr>create_connection :=
                     (\<lambda>h r. if length h < 2 then Inr (length h)
                            else Inl (Exn OtherException ''out of memory''))\<rparr>"



text \<open>The exchange recorded for \<open>msg\<close> with the response \<open>r\<close>, on a clock that stands still.\<close>

definition recorded :: "string \<Rightarrow> string \<Rightarrow> bool \<Rightarrow> exchange" where
  "recorded msg r is_error =
     \<lparr>REQUEST = msg, RESPONSE = Some r, IS_ERROR = is_error, RESPONSE_TIME = 0,
      REQUEST_LENGTH = length msg, RESPONSE_LENGTH = Some (length r)\<rparr>"

text \<open>As \<open>limited_env\<close>, but closing connection 0 fails with a \<open>WebSocketException\<close>.\<close>

definition close_raising_env :: env where
  "close_raising_env =
     limited_env\<lparr>ws_close := (\<lambda>h c. if c = 0 then Some (Exn WebSocketException ''close failed'') else None)\<rparr>"

text \<open>A shell that recorded two exchanges, the second one failed.\<close>

definition recorded_shell :: shell where
  "recorded_shell =
     connected_shell\<lparr>exchanges := [(0, recorded ''m1'' ''ok'' False), (1, recorded ''m2'' ''send failed'' True)]\<rparr>"

section \<open>Properties of the payload combinator\<close>

text \<open>When every payload file has at least one line, \<open>combine\<close> is the Cartesian product in
  the order of the specification.\<close>

lemma binding_of_tuple_snoc:
  "binding_of_tuple (t @ [v]) = [payload_placeholder_key (Suc (length t)) \<mapsto> v] ++ binding_of_tuple t"
proof -
  let ?ks = "map payload_placeholder_key [1 ..< Suc (length t)]"
  have l: "length ?ks = length t" by (simp del: upt_Suc)
  have k: "map payload_placeholder_key [1 ..< Suc (length (t @ [v]))]
      = ?ks @ [payload_placeholder_key (Suc (length t))]"
    by (simp del: upt_Suc add: upt_Suc_append)
  have "binding_of_tuple (t @ [v])
      = map_of (zip ?ks t @ [(payload_placeholder_key (Suc (length t)), v)])"
    unfolding binding_of_tuple_def k using zip_append [OF l] by simp
  then show ?thesis
    by (simp only: map_of_append binding_of_tuple_def) simp
qed

lemma append_singleton: "(@) [a] = (#) a"
  by (rule ext) simp

lemma seed_combinations_tuples:
  "seed_combinations (payload_placeholder_key 1) payloads
     = map binding_of_tuple (map (\<lambda>payload. [rstrip_nl payload]) payloads)"
  by (simp add: seed_combinations_def binding_of_tuple_def)

lemma expand_combinations_tuples:
  "\<forall>t \<in> set ts. length t = n \<Longrightarrow>
   expand_combinations (payload_placeholder_key (Suc n)) payloads (map binding_of_tuple ts)
     = map binding_of_tuple (concat (map (\<lambda>t. map (\<lambda>payload. t @ [rstrip_nl payload]) payloads) ts))"
  by (induction ts) (simp_all add: expand_combinations_def binding_of_tuple_snoc comp_def)

lemma product_one_more:
  "concat (map (\<lambda>l. map ((@) (t @ [l])) C) L)
     = map ((@) t) (concat (map (\<lambda>l. map ((#) l) C) L))"
  by (induction L) simp_all

lemma product_extend:
  "concat (map (\<lambda>t'. map ((@) t') C) (concat (map (\<lambda>t. map (\<lambda>l. t @ [l]) L) ts)))
     = concat (map (\<lambda>t. map ((@) t) (concat (map (\<lambda>l. map ((#) l) C) L))) ts)"
  by (induction ts) (simp_all add: product_one_more comp_def)

lemma build_fuzzing_dicts_product:
  "map fs paths = map Some files \<Longrightarrow> \<forall>ls \<in> set files. ls \<noteq> [] \<Longrightarrow> ts \<noteq> [] \<Longrightarrow>
   \<forall>t \<in> set ts. length t = n \<Longrightarrow>
   build_fuzzing_dicts fs paths (map binding_of_tuple ts) (Suc n)
     = Inr (map binding_of_tuple
             (concat (map (\<lambda>t. map ((@) t) (cartesian_product (map (map rstrip_nl) files))) ts)))"
proof (induction paths arbitrary: files ts n)
  case Nil
  then show ?case by simp
next
  case (Cons path paths)
  from Cons.prems(1) obtain ls rest where f: "files = ls # rest" "fs path = Some ls"
    "map fs paths = map Some rest"
    by (cases files) auto
  let ?ts = "concat (map (\<lambda>t. map (\<lambda>payload. t @ [rstrip_nl payload]) ls) ts)"
  have ne: "ls \<noteq> []" "\<forall>ls \<in> set rest. ls \<noteq> []" using Cons.prems(2) f(1) by auto
  have t1: "?ts \<noteq> []" using ne(1) Cons.prems(3) by (cases ts; cases ls) auto
  have t2: "\<forall>t \<in> set ?ts. length t = Suc n" using Cons.prems(4) by auto
  have e: "?ts = concat (map (\<lambda>t. map (\<lambda>l. t @ [l]) (map rstrip_nl ls)) ts)"
    by (simp add: comp_def)
  have "build_fuzzing_dicts fs (path # paths) (map binding_of_tuple ts) (Suc n)
      = build_fuzzing_dicts fs paths (map binding_of_tuple ?ts) (Suc (Suc n))"
    using f(2) Cons.prems(3) expand_combinations_tuples [OF Cons.prems(4), of ls] by simp
  also have "\<dots> = Inr (map binding_of_tuple
             (concat (map (\<lambda>t. map ((@) t) (cartesian_product (map (map rstrip_nl) rest))) ?ts)))"
    by (rule Cons.IH [OF f(3) ne(2) t1 t2])
  also have "concat (map (\<lambda>t. map ((@) t) (cartesian_product (map (map rstrip_nl) rest))) ?ts)
      = concat (map (\<lambda>t. map ((@) t) (cartesian_product (map (map rstrip_nl) files))) ts)"
    unfolding e f(1) list.map cartesian_product.simps by (rule product_extend)
  finally show ?case .
qed

lemma combine_product:
  assumes "map fs paths = map Some files" and "\<forall>ls \<in> set files. ls \<noteq> []" and "paths \<noteq> []"
  shows "combine fs paths = Inr (spec_combine files)"
proof -
  from assms(1,3) obtain path rest_paths ls rest where p: "paths = path # rest_paths"
    "files = ls # rest" "fs path = Some ls" "map fs rest_paths = map Some rest"
    by (cases paths; cases files) auto
  let ?ts = "map (\<lambda>payload. [rstrip_nl payload]) ls"
  have ne: "ls \<noteq> []" "\<forall>ls \<in> set rest. ls \<noteq> []" using assms(2) p(2) by auto
  have t1: "?ts \<noteq> []" using ne(1) by simp
  have t2: "\<forall>t \<in> set ?ts. length t = 1" by auto
  have "combine fs paths = build_fuzzing_dicts fs rest_paths (map binding_of_tuple ?ts) (Suc 1)"
    using p(1,3) seed_combinations_tuples [of ls] by (simp add: combine_def)
  also have "\<dots> = Inr (map binding_of_tuple
             (concat (map (\<lambda>t. map ((@) t) (cartesian_product (map (map rstrip_nl) rest))) ?ts)))"
    by (rule build_fuzzing_dicts_product [OF p(4) ne(2) t1 t2])
  also have "\<dots> = Inr (spec_combine files)"
    by (simp add: spec_combine_def p(2) comp_def append_singleton)
  finally show ?thesis .
qed

lemma combine_two_files_of_two_lines:
  "combine [''f1'' \<mapsto> [''x'' @ [CHR 0x0A], ''y'' @ [CHR 0x0A]], ''f2'' \<mapsto> [''1'' @ [CHR 0x0A], ''2'']]
     [''f1'', ''f2'']
   = Inr [[''payload_1'' \<mapsto> ''x'', ''payload_2'' \<mapsto> ''1''], [''payload_1'' \<mapsto> ''x'', ''payload_2'' \<mapsto> ''2''],
          [''payload_1'' \<mapsto> ''y'', ''payload_2'' \<mapsto> ''1''], [''payload_1'' \<mapsto> ''y'', ''payload_2'' \<mapsto> ''2'']]"
  apply (simp add: combine_def seed_combinations_def expand_combinations_def rstrip_nl_def
      payload_placeholder_key_def str_nat.simps digit_char_def)
  apply (auto simp: fun_eq_iff map_add_def)
  done

text \<open>
  C1. Claimed: for every non-empty list of payload files, \<open>combine\<close> yields exactly the
  Cartesian product of the files' line lists. It does when no file is empty
  (\<open>combine_product\<close>). When the first file has no line and the second holds the line \<open>a\<close>,
  the product is empty, yet the code returns one binding that has no \<open>payload_1\<close>: the test
  \<open>len(payload_combinations) == 0\<close> takes the second file for the first.
\<close>

theorem combine_empty_first_file:
  "combine two_files [''empty.txt'', ''one.txt''] = Inr [[''payload_2'' \<mapsto> ''a'']]
   \<and> spec_combine [[], [''a'' @ [CHR 0x0A]]] = []"
  by (simp add: combine_def two_files_def seed_combinations_def rstrip_nl_def payload_placeholder_key_def
      str_nat.simps digit_char_def spec_combine_def)

text \<open>
  C8. Claimed: for the empty file list, \<open>combine\<close> yields one binding, the empty one. The
  code returns its accumulator, which is the empty list of bindings.
\<close>

theorem combine_no_file: "combine fs [] = Inr []"
  by (simp add: combine_def)

theorem combine_no_file_not_one_empty_binding: "combine Map.empty [] \<noteq> Inr [Map.empty]"
  by (simp add: combine_def)

section \<open>Properties of the limit probers\<close>

text \<open>A send that first fails at the size \<open>idx + 10 * n\<close> with a websocket or I/O error gives
  \<open>max_length\<close> that size minus 10; sends that never fail give \<open>max_length = 0\<close> at the
  ceiling.\<close>

lemma length_probe_loop_stops:
  "client sh = Some c \<Longrightarrow> sends_then_fail E (history sh) c idx n e \<Longrightarrow>
   is_WebSocketException_or_IOError e \<Longrightarrow> idx + 10 * n < max_probing_limit \<Longrightarrow>
   fst (length_probe_loop E idx sh) = Return (int (idx + 10 * n) - 10)"
proof (induction n arbitrary: idx sh)
  case 0
  then show ?case
    by (subst length_probe_loop.simps) (simp add: client_send_def print_def)
next
  case (Suc n)
  let ?sh1 = "if idx mod 1000 = 0 then print (LengthReached idx) sh else sh"
  let ?sh2 = "called (Send c (replicate idx CHR ''T'')) ?sh1"
  have c2: "client ?sh2 = Some c" using Suc.prems(1) by (simp add: called_def print_def)
  have s2: "sends_then_fail E (history ?sh2) c (idx + 10) n e"
    using Suc.prems(2) by (simp add: called_def print_def)
  have l: "idx + 10 + 10 * n < max_probing_limit" using Suc.prems(4) by simp
  have step: "length_probe_loop E idx sh = length_probe_loop E (idx + 10) ?sh2"
    using Suc.prems by (subst length_probe_loop.simps) (simp add: client_send_def print_def Let_def)
  show ?case
    unfolding step using Suc.IH [OF c2 s2 Suc.prems(3) l] by (simp add: algebra_simps)
qed

lemma length_probe_loop_ceiling:
  "client sh = Some c \<Longrightarrow> \<forall>h m. ws_send E h c m = None \<Longrightarrow>
   fst (length_probe_loop E idx sh) = Return 0"
proof (induction E idx sh rule: length_probe_loop.induct)
  case (1 E idx sh)
  show ?case
  proof (cases "idx < max_probing_limit")
    case False
    then show ?thesis by (subst length_probe_loop.simps) simp
  next
    case True
    let ?sh1 = "if idx mod 1000 = 0 then print (LengthReached idx) sh else sh"
    let ?sh2 = "called (Send c (replicate idx CHR ''T'')) ?sh1"
    have cs: "client_send E (replicate idx CHR ''T'') ?sh1 = (Return (), ?sh2)"
      using "1.prems" by (simp add: client_send_def print_def)
    have c2: "client ?sh2 = Some c" using "1.prems"(1) by (simp add: called_def print_def)
    have step: "length_probe_loop E idx sh = length_probe_loop E (idx + 10) ?sh2"
      using True cs by (subst length_probe_loop.simps) (simp add: Let_def)
    show ?thesis
      unfolding step using "1.IH" [OF True refl cs [symmetric] refl c2 "1.prems"(2)] .
  qed
qed

lemma replicate_10_T: "replicate 10 CHR ''T'' = ''TTTTTTTTTT''"
  by code_simp

text \<open>
  C3. Claimed: a send that first fails at size \<open>s\<close> gives the confirmed maximum \<open>s - 10\<close>, and a
  failure at the first size, 10, gives the maximum 0, distinct from the outcome at the ceiling.
  On a server that rejects the first message of 10 characters, the code prints the line of the
  ceiling: the limit was not identified and is superior to 1000000000. (\<open>max_length\<close> is 0
  both here and when no send fails, \<open>length_probe_loop_ceiling\<close>; for a first failure at a
  larger size it is that size minus 10, \<open>length_probe_loop_stops\<close>.)
\<close>

theorem length_probe_first_size_fails:
  "do_probe_request_length_limit rejecting_env connected_shell =
     (Return (),
      connected_shell\<lparr>history := [Send 0 ''TestAliveState'', Recv 0, Send 0 ''TTTTTTTTTT''],
        printed := [CheckConnection, ConnectionIsAvailable, SendIncreasingLength,
                    MaxLengthNotIdentified 1000000000]\<rparr>)"
  by (simp add: do_probe_request_length_limit_def check_connection_availability_def client_send_def
      client_recv_def rejecting_env_def connected_shell_def print_def called_def
      length_probe_loop.simps[of _ 10] max_probing_limit_def is_WebSocketException_or_IOError_def
      is_WebSocketConnectionClosedException_def replicate_10_T)

lemma reached_lines_step:
  "i < j \<Longrightarrow>
   reached_lines i j = (if i mod 10 = 0 then [ConnectionsReached i] else []) @ reached_lines (Suc i) j"
  by (simp add: reached_lines_def upt_conv_Cons)

lemma connection_probe_loop_stops:
  "opens_then_fails E (history sh) req cs e \<Longrightarrow> is_WebSocketException_or_IOError e \<Longrightarrow>
   idx + length cs < max_probing_limit \<Longrightarrow>
   connection_probe_loop E req idx refs sh =
     (Return (int (idx + length cs) - 1, refs @ cs),
      sh\<lparr>history := history sh @ replicate (Suc (length cs)) (Open req),
          printed := printed sh @ reached_lines idx (Suc (idx + length cs))\<rparr>)"
proof (induction cs arbitrary: idx refs sh)
  case Nil
  then show ?case
    by (subst connection_probe_loop.simps) (simp add: reached_lines_def print_def called_def)
next
  case (Cons c cs)
  let ?sh1 = "if idx mod 10 = 0 then print (ConnectionsReached idx) sh else sh"
  have h1: "history ?sh1 = history sh" by (simp add: print_def)
  have o: "opens_then_fails E (history (called (Open req) ?sh1)) req cs e"
    using Cons.prems(1) by (simp add: called_def h1)
  have l: "Suc idx + length cs < max_probing_limit" using Cons.prems(3) by simp
  have step: "connection_probe_loop E req idx refs sh
      = connection_probe_loop E req (Suc idx) (refs @ [c]) (called (Open req) ?sh1)"
    using Cons.prems by (subst connection_probe_loop.simps) (simp add: h1 Let_def)
  show ?case
    unfolding step Cons.IH [OF o Cons.prems(2) l]
    by (simp add: reached_lines_step [of idx] print_def called_def replicate_append_same)
qed

lemma release_connections_all:
  "release_errors_are_IOError E (history sh) cs \<Longrightarrow>
   release_connections E cs n sh =
     (Return (n + release_failures E (history sh) cs), sh\<lparr>history := history sh @ map Close cs\<rparr>)"
proof (induction cs arbitrary: n sh)
  case Nil
  then show ?case by simp
next
  case (Cons c cs)
  then show ?case
    by (auto simp: called_def split: option.splits)
qed


lemma connection_probe_loop_raises:
  "opens_then_fails E (history sh) req cs e \<Longrightarrow> \<not> is_WebSocketException_or_IOError e \<Longrightarrow>
   idx + length cs < max_probing_limit \<Longrightarrow>
   connection_probe_loop E req idx refs sh =
     (Raise e,
      sh\<lparr>history := history sh @ replicate (Suc (length cs)) (Open req),
          printed := printed sh @ reached_lines idx (Suc (idx + length cs))\<rparr>)"
proof (induction cs arbitrary: idx refs sh)
  case Nil
  then show ?case
    by (subst connection_probe_loop.simps) (simp add: reached_lines_def print_def called_def)
next
  case (Cons c cs)
  let ?sh1 = "if idx mod 10 = 0 then print (ConnectionsReached idx) sh else sh"
  have h1: "history ?sh1 = history sh" by (simp add: print_def)
  have o: "opens_then_fails E (history (called (Open req) ?sh1)) req cs e"
    using Cons.prems(1) by (simp add: called_def h1)
  have l: "Suc idx + length cs < max_probing_limit" using Cons.prems(3) by simp
  have step: "connection_probe_loop E req idx refs sh
      = connection_probe_loop E req (Suc idx) (refs @ [c]) (called (Open req) ?sh1)"
    using Cons.prems by (subst connection_probe_loop.simps) (simp add: h1 Let_def)
  show ?case
    unfolding step Cons.IH [OF o Cons.prems(2) l]
    by (simp add: reached_lines_step [of idx] print_def called_def replicate_append_same)
qed

text \<open>
  C4. Claimed: when the \<open>k\<close>-th open fails, the probe reports the maximum \<open>k - 1\<close> and then closes
  every held connection, however growth stopped, release failures being counted and never
  raised. What the code does, with a saved command line that the parser accepts: when the
  opens give the connections \<open>cs\<close> (at least one, fewer than the ceiling), the next open raises
  a \<open>WebSocketException\<close> or an \<open>IOError\<close>, and no close raises anything but an \<open>IOError\<close>, it
  reports the maximum \<open>length cs\<close>, then calls close on each connection of \<open>cs\<close> in the order
  they were opened, counts the closes that raise and reports them, and returns normally.
\<close>

theorem connection_probe_limit_found:
  assumes "client_connection_parameters sh = Some params"
    and "parse_args E (split_on CHR '' '' params) = Some args"
    and "connection_request args = Inr req"
    and "opens_then_fails E (history sh) req cs e"
    and "is_WebSocketException_or_IOError e"
    and "cs \<noteq> []"
    and "Suc (length cs) < max_probing_limit"
    and "release_errors_are_IOError E (history sh @ replicate (Suc (length cs)) (Open req)) cs"
  shows "do_probe_request_connection_limit E sh =
     (Return (),
      sh\<lparr>history := history sh @ replicate (Suc (length cs)) (Open req) @ map Close cs,
          printed := printed sh @ [PerformProbing] @ reached_lines 1 (length cs + 2)
             @ [MaxConnectionsIdentified (int (length cs)), ReleaseConnections,
                ConnectionsReleased
                  (int (length cs)
                    - int (release_failures E (history sh @ replicate (Suc (length cs)) (Open req)) cs))
                  (release_failures E (history sh @ replicate (Suc (length cs)) (Open req)) cs)]\<rparr>)"
proof -
  define h where "h = history sh @ replicate (Suc (length cs)) (Open req)"
  define f where "f = release_failures E h cs"
  define sh0 where "sh0 = print PerformProbing sh"
  define sh1 where "sh1 = sh0\<lparr>history := h, printed := printed sh0 @ reached_lines 1 (length cs + 2)\<rparr>"
  define sh2 where "sh2 = print ReleaseConnections (print (MaxConnectionsIdentified (int (length cs))) sh1)"
  have o: "opens_then_fails E (history sh0) req cs e"
    using assms(4) by (simp add: sh0_def print_def)
  have l: "Suc 0 + length cs < max_probing_limit" using assms(7) by simp
  have grow: "connection_probe_loop E req (Suc 0) [] sh0 = (Return (int (length cs), cs), sh1)"
    using connection_probe_loop_stops [OF o assms(5) l, of "[]"]
    by (simp add: sh1_def sh0_def h_def print_def)
  have r: "release_errors_are_IOError E (history sh2) cs"
    using assms(8) by (simp add: sh2_def sh1_def print_def h_def)
  have rel: "release_connections E cs 0 sh2 = (Return f, sh2\<lparr>history := h @ map Close cs\<rparr>)"
    using release_connections_all [OF r, of 0] by (simp add: f_def sh2_def sh1_def print_def)
  have pos: "0 < int (length cs)" using assms(6) by simp
  have main: "do_probe_request_connection_limit E sh =
      (Return (), print (ConnectionsReleased (int (length cs) - int f) f) (sh2\<lparr>history := h @ map Close cs\<rparr>))"
    using assms(1,2,3) pos
    by (simp add: do_probe_request_connection_limit_def sh0_def [symmetric] grow sh2_def [symmetric] rel)
  show ?thesis
    unfolding main
    by (simp add: sh2_def sh1_def sh0_def print_def f_def h_def)
qed

theorem connection_probe_limit_found_witness:
  "(client_connection_parameters connected_shell = Some ''-t ws://a''
    \<and> parse_args limited_env (split_on CHR '' '' ''-t ws://a'') = Some plain_args
    \<and> connection_request plain_args = Inr plain_request
    \<and> opens_then_fails limited_env (history connected_shell) plain_request [0, 1]
         (Exn WebSocketException ''too many connections'')
    \<and> is_WebSocketException_or_IOError (Exn WebSocketException ''too many connections'')
    \<and> [0, 1 :: nat] \<noteq> []
    \<and> Suc (length [0, 1 :: nat]) < max_probing_limit
    \<and> release_errors_are_IOError limited_env
         (history connected_shell @ replicate (Suc (length [0, 1 :: nat])) (Open plain_request)) [0, 1])
   \<and> do_probe_request_connection_limit limited_env connected_shell =
       (Return (),
        connected_shell\<lparr>history := [Open plain_request, Open plain_request, Open plain_request, Close 0, Close 1],
          printed := [PerformProbing, MaxConnectionsIdentified 2, ReleaseConnections,
                      ConnectionsReleased 1 1]\<rparr>)"
proof -
  have h1: "client_connection_parameters connected_shell = Some ''-t ws://a''"
    by (simp add: connected_shell_def)
  have h2: "parse_args limited_env (split_on CHR '' '' ''-t ws://a'') = Some plain_args"
    by (simp add: limited_env_def rejecting_env_def)
  have h3: "connection_request plain_args = Inr plain_request"
    by (simp add: plain_args_def plain_request_def connection_request_def)
  have h4: "opens_then_fails limited_env (history connected_shell) plain_request [0, 1]
         (Exn WebSocketException ''too many connections'')"
    by (simp add: limited_env_def rejecting_env_def connected_shell_def)
  have h5: "is_WebSocketException_or_IOError (Exn WebSocketException ''too many connections'')"
    by (simp add: is_WebSocketException_or_IOError_def)
  have h6: "[0, 1 :: nat] \<noteq> []" by simp
  have h7: "Suc (length [0, 1 :: nat]) < max_probing_limit" by (simp add: max_probing_limit_def)
  have h8: "release_errors_are_IOError limited_env
         (history connected_shell @ replicate (Suc (length [0, 1 :: nat])) (Open plain_request)) [0, 1]"
    by (simp add: limited_env_def rejecting_env_def is_IOError_def)
  have f: "release_failures limited_env
         (history connected_shell @ replicate (Suc (length [0, 1 :: nat])) (Open plain_request)) [0, 1] = 1"
    by (simp add: limited_env_def rejecting_env_def)
  have rl: "reached_lines 1 (length [0, 1 :: nat] + 2) = []"
    by (simp add: reached_lines_def upt_rec)
  have hs: "history connected_shell = []" "printed connected_shell = []"
    by (simp_all add: connected_shell_def)
  have "do_probe_request_connection_limit limited_env connected_shell =
       (Return (),
        connected_shell\<lparr>history := [Open plain_request, Open plain_request, Open plain_request, Close 0, Close 1],
          printed := [PerformProbing, MaxConnectionsIdentified 2, ReleaseConnections,
                      ConnectionsReleased 1 1]\<rparr>)"
    unfolding connection_probe_limit_found [OF h1 h2 h3 h4 h5 h6 h7 h8] f rl
    by (simp add: hs numeral_2_eq_2)
  with h1 h2 h3 h4 h5 h6 h7 h8 show ?thesis by blast
qed

text \<open>
  The claim fails where growth stops on an unexpected error: the third open raises an error
  that is neither a \<open>WebSocketException\<close> nor an \<open>IOError\<close>; the command reports
  \<open>Probing failed\<close> and closes neither of the two connections it holds.
\<close>

theorem connection_probe_unexpected_failure_skips_release:
  "do_probe_request_connection_limit crashing_env connected_shell =
     (Return (),
      connected_shell\<lparr>history := [Open plain_request, Open plain_request, Open plain_request],
        printed := [PerformProbing, ProbingFailed ''out of memory'']\<rparr>)"
proof -
  have p: "client_connection_parameters connected_shell = Some ''-t ws://a''"
    by (simp add: connected_shell_def)
  have h2: "parse_args crashing_env (split_on CHR '' '' ''-t ws://a'') = Some plain_args"
    by (simp add: crashing_env_def rejecting_env_def)
  have h3: "connection_request plain_args = Inr plain_request"
    by (simp add: plain_args_def plain_request_def connection_request_def)
  have o: "opens_then_fails crashing_env (history (print PerformProbing connected_shell)) plain_request [0, 1]
         (Exn OtherException ''out of memory'')"
    by (simp add: crashing_env_def rejecting_env_def connected_shell_def print_def)
  have n: "\<not> is_WebSocketException_or_IOError (Exn OtherException ''out of memory'')"
    by (simp add: is_WebSocketException_or_IOError_def)
  have l: "Suc 0 + length [0, 1 :: nat] < max_probing_limit" by (simp add: max_probing_limit_def)
  have rl: "reached_lines (Suc 0) (Suc (Suc 0 + length [0, 1 :: nat])) = []"
    by (simp add: reached_lines_def upt_rec)
  note grow = connection_probe_loop_raises [OF o n l, of "[]", unfolded rl]
  have main: "do_probe_request_connection_limit crashing_env connected_shell =
      probing_failed (Exn OtherException ''out of memory'')
        ((print PerformProbing connected_shell)
           \<lparr>history := history (print PerformProbing connected_shell)
                          @ replicate (Suc (length [0, 1 :: nat])) (Open plain_request),
            printed := printed (print PerformProbing connected_shell) @ []\<rparr>)"
    using p h2 h3 by (simp add: do_probe_request_connection_limit_def grow)
  show ?thesis
    unfolding main
    by (simp add: probing_failed_def print_def connected_shell_def numeral_2_eq_2)
qed

text \<open>
  Nor are the remaining connections closed when a close raises something other than an
  \<open>IOError\<close>: closing connection 0 raises a \<open>WebSocketException\<close>, the command reports
  \<open>Probing failed\<close> and connection 1 is never closed.
\<close>

lemma connection_probe_close_error_stops_release:
  "do_probe_request_connection_limit close_raising_env connected_shell =
     (Return (),
      connected_shell\<lparr>history := [Open plain_request, Open plain_request, Open plain_request, Close 0],
        printed := [PerformProbing, MaxConnectionsIdentified 2, ReleaseConnections,
                    ProbingFailed ''close failed'']\<rparr>)"
proof -
  have p: "client_connection_parameters connected_shell = Some ''-t ws://a''"
    by (simp add: connected_shell_def)
  have h2: "parse_args close_raising_env (split_on CHR '' '' ''-t ws://a'') = Some plain_args"
    by (simp add: close_raising_env_def limited_env_def rejecting_env_def)
  have h3: "connection_request plain_args = Inr plain_request"
    by (simp add: plain_args_def plain_request_def connection_request_def)
  have o: "opens_then_fails close_raising_env (history (print PerformProbing connected_shell)) plain_request
         [0, 1] (Exn WebSocketException ''too many connections'')"
    by (simp add: close_raising_env_def limited_env_def rejecting_env_def connected_shell_def print_def)
  have n: "is_WebSocketException_or_IOError (Exn WebSocketException ''too many connections'')"
    by (simp add: is_WebSocketException_or_IOError_def)
  have l: "Suc 0 + length [0, 1 :: nat] < max_probing_limit" by (simp add: max_probing_limit_def)
  have rl: "reached_lines (Suc 0) (Suc (Suc 0 + length [0, 1 :: nat])) = []"
    by (simp add: reached_lines_def upt_rec)
  note grow = connection_probe_loop_stops [OF o n l, of "[]", unfolded rl]
  have c: "ws_close close_raising_env h 0 = Some (Exn WebSocketException ''close failed'')" for h
    by (simp add: close_raising_env_def limited_env_def rejecting_env_def)
  have i: "\<not> is_IOError (Exn WebSocketException ''close failed'')"
    by (simp add: is_IOError_def)
  show ?thesis
    using p h2 h3
    apply (simp add: do_probe_request_connection_limit_def grow)
    apply (simp add: c i probing_failed_def print_def called_def connected_shell_def numeral_2_eq_2)
    done
qed

section \<open>Properties of the channel capability prober\<close>

text \<open>
  C7. Claimed: only the scheme token of the saved endpoint is replaced, host, port and path
  keep their character case. The code lower-cases the whole endpoint before it swaps the
  scheme: for \<open>ws://Host.example/Chat\<close> it tests \<open>wss://host.example/chat\<close>.
\<close>

theorem complementary_endpoint_lowercases_path:
  "complementary_endpoint ''ws://Host.example/Chat'' = (''Secure'', ''wss://'', ''wss://host.example/chat'')"
  by code_simp

section \<open>Properties of the analyzer\<close>

text \<open>
  C5. Claimed: the timing aggregation lists its keys in ascending order. The code lists them
  in the order in which they first occur: for the response times 1.1 and 0.2 the key 1 comes
  before the key 0.
\<close>

theorem analyze_response_time_first_seen_order:
  "analyze_response_time [(0, timed (11 / 10)), (1, timed (2 / 10))]
     = Return (AggregatedByResponseTime [(1, ''0''), (0, ''1'')])"
  by code_simp

section \<open>Properties of the connection manager\<close>

lemma do_connect_never_raises: "fst (do_connect E line sh) \<noteq> Raise e"
  by (auto simp: do_connect_def client_send_def client_recv_def connection_failed_def Let_def print_def
      called_def split: option.splits sum.splits if_splits)

lemma do_connect_opens_saved_request:
  assumes "strip l \<noteq> []" and "contains ''-t'' l"
    and "parse_args E (split_on CHR '' '' l) = Some args"
    and "connection_request args = Inr req"
  shows "\<exists>rest. history (snd (do_connect E (Some l) sh)) = history sh @ Open req # rest"
  using assms
  by (auto simp: do_connect_def client_send_def client_recv_def connection_failed_def Let_def print_def
      called_def split: option.splits sum.splits)

lemma do_disconnect_frame:
  "client_connection_parameters (do_disconnect E sh) = client_connection_parameters sh
   \<and> exchanges (do_disconnect E sh) = exchanges sh"
  by (simp add: do_disconnect_def print_def called_def split: option.splits)

lemma do_connect_validated:
  assumes "strip l \<noteq> []" and "contains ''-t'' l"
    and "parse_args E (split_on CHR '' '' l) = Some args"
    and "connection_request args = Inr req"
    and "create_connection E (history sh) req = Inr c"
    and "ws_send E (history sh @ [Open req]) c ''hello'' = None"
    and "ws_recv E (history sh @ [Open req, Send c ''hello'']) c = Inr (Some r)"
  shows "do_connect E (Some l) sh =
     (Return (), sh\<lparr>client := Some c, client_connection_parameters := Some l,
                     history := history sh @ [Open req, Send c ''hello'', Recv c],
                     printed := printed sh @ [Connecting, Connected]\<rparr>)"
  using assms
  by (simp add: do_connect_def client_send_def client_recv_def Let_def print_def called_def)

lemma plain_line:
  "strip ''-t ws://a'' \<noteq> []" "contains ''-t'' ''-t ws://a''"
  "connection_request plain_args = Inr plain_request"
  by (simp_all add: strip_def is_space_def startswith_def plain_args_def plain_request_def
      connection_request_def)

text \<open>
  C6. Claimed: a connect that fails raises a connection error and leaves the live handle and
  the saved parameters untouched. What the code does, for a command line that the parser
  accepts: when the handshake fails, \<open>do_connect\<close> raises nothing, prints
  \<open>Connection failed\<close> with the text of the error, and leaves the live handle, the saved
  parameters and the exchanges as they were; when the handshake succeeds and the liveness
  send or receive raises, or the receive returns \<open>None\<close>, it raises nothing, prints
  \<open>Connection failed\<close> with the text of the error (for \<open>None\<close>: that the connection state
  cannot be confirmed), and leaves the saved parameters as they were.
\<close>

theorem do_connect_failure_keeps_parameters:
  assumes "strip l \<noteq> []" and "contains ''-t'' l"
    and "parse_args E (split_on CHR '' '' l) = Some args"
    and "connection_request args = Inr req"
  shows "(\<forall>e. create_connection E (history sh) req = Inl e \<longrightarrow>
            do_connect E (Some l) sh =
              (Return (),
               sh\<lparr>history := history sh @ [Open req],
                   printed := printed sh @ [Connecting, ConnectionFailed (exn_text e)]\<rparr>))
    \<and> (\<forall>c e. create_connection E (history sh) req = Inr c
              \<and> ws_send E (history sh @ [Open req]) c ''hello'' = Some e \<longrightarrow>
            fst (do_connect E (Some l) sh) = Return ()
            \<and> client_connection_parameters (snd (do_connect E (Some l) sh)) = client_connection_parameters sh
            \<and> printed (snd (do_connect E (Some l) sh))
                = printed sh @ [Connecting, ConnectionFailed (exn_text e)])
    \<and> (\<forall>c e. create_connection E (history sh) req = Inr c
              \<and> ws_send E (history sh @ [Open req]) c ''hello'' = None
              \<and> ws_recv E (history sh @ [Open req, Send c ''hello'']) c = Inl e \<longrightarrow>
            fst (do_connect E (Some l) sh) = Return ()
            \<and> client_connection_parameters (snd (do_connect E (Some l) sh)) = client_connection_parameters sh
            \<and> printed (snd (do_connect E (Some l) sh))
                = printed sh @ [Connecting, ConnectionFailed (exn_text e)])
    \<and> (\<forall>c. create_connection E (history sh) req = Inr c
              \<and> ws_send E (history sh @ [Open req]) c ''hello'' = None
              \<and> ws_recv E (history sh @ [Open req, Send c ''hello'']) c = Inr None \<longrightarrow>
            fst (do_connect E (Some l) sh) = Return ()
            \<and> client_connection_parameters (snd (do_connect E (Some l) sh)) = client_connection_parameters sh
            \<and> printed (snd (do_connect E (Some l) sh))
                = printed sh @ [Connecting, ConnectionStateCannotBeConfirmed])"
  using assms
  by (auto simp: do_connect_def client_send_def client_recv_def connection_failed_def Let_def print_def
      called_def)

theorem do_connect_failure_keeps_parameters_witness:
  "(strip ''-t ws://a'' \<noteq> [] \<and> contains ''-t'' ''-t ws://a''
    \<and> parse_args refusing_env (split_on CHR '' '' ''-t ws://a'') = Some plain_args
    \<and> parse_args unresponsive_env (split_on CHR '' '' ''-t ws://a'') = Some plain_args
    \<and> connection_request plain_args = Inr plain_request
    \<and> create_connection refusing_env (history connected_shell) plain_request
         = Inl (Exn IOError ''connection refused'')
    \<and> create_connection unresponsive_env (history connected_shell) plain_request = Inr 7
    \<and> ws_send unresponsive_env (history connected_shell @ [Open plain_request]) 7 ''hello''
         = Some (Exn WebSocketException ''socket is already closed.''))
   \<and> do_connect refusing_env (Some ''-t ws://a'') connected_shell =
        (Return (),
         connected_shell\<lparr>history := [Open plain_request],
           printed := [Connecting, ConnectionFailed ''connection refused'']\<rparr>)
   \<and> fst (do_connect unresponsive_env (Some ''-t ws://a'') connected_shell) = Return ()
   \<and> client_connection_parameters (snd (do_connect unresponsive_env (Some ''-t ws://a'') connected_shell))
        = Some ''-t ws://a''
   \<and> printed (snd (do_connect unresponsive_env (Some ''-t ws://a'') connected_shell))
        = [Connecting, ConnectionFailed ''socket is already closed.'']"
proof -
  have p1: "parse_args refusing_env (split_on CHR '' '' ''-t ws://a'') = Some plain_args"
    by (simp add: refusing_env_def rejecting_env_def)
  have p2: "parse_args unresponsive_env (split_on CHR '' '' ''-t ws://a'') = Some plain_args"
    by (simp add: unresponsive_env_def rejecting_env_def)
  have o1: "create_connection refusing_env (history connected_shell) plain_request
         = Inl (Exn IOError ''connection refused'')"
    by (simp add: refusing_env_def rejecting_env_def)
  have o2: "create_connection unresponsive_env (history connected_shell) plain_request = Inr 7"
    by (simp add: unresponsive_env_def rejecting_env_def)
  have s2: "ws_send unresponsive_env (history connected_shell @ [Open plain_request]) 7 ''hello''
         = Some (Exn WebSocketException ''socket is already closed.'')"
    by (simp add: unresponsive_env_def rejecting_env_def)
  have cs: "history connected_shell = []" "printed connected_shell = []"
    "client_connection_parameters connected_shell = Some ''-t ws://a''"
    by (simp_all add: connected_shell_def)
  note t1 = do_connect_failure_keeps_parameters [OF plain_line(1,2) p1 plain_line(3), of connected_shell]
  note t2 = do_connect_failure_keeps_parameters [OF plain_line(1,2) p2 plain_line(3), of connected_shell]
  have a: "do_connect refusing_env (Some ''-t ws://a'') connected_shell =
        (Return (),
         connected_shell\<lparr>history := [Open plain_request],
           printed := [Connecting, ConnectionFailed ''connection refused'']\<rparr>)"
    using t1 [THEN conjunct1, rule_format, OF o1] by (simp add: cs)
  have b: "fst (do_connect unresponsive_env (Some ''-t ws://a'') connected_shell) = Return ()
   \<and> client_connection_parameters (snd (do_connect unresponsive_env (Some ''-t ws://a'') connected_shell))
        = Some ''-t ws://a''
   \<and> printed (snd (do_connect unresponsive_env (Some ''-t ws://a'') connected_shell))
        = [Connecting, ConnectionFailed ''socket is already closed.'']"
    using t2 [THEN conjunct2, THEN conjunct1, rule_format, of 7, OF conjI [OF o2 s2]] by (simp add: cs)
  from plain_line p1 p2 o1 o2 s2 a b show ?thesis by blast
qed

text \<open>
  The claim fails where the handshake succeeds and the liveness send fails: nothing is raised
  and the shell holds connection 7 in place of connection 0.
\<close>

theorem do_connect_liveness_failure_replaces_client:
  "fst (do_connect unresponsive_env (Some ''-t ws://a'') connected_shell) = Return ()
   \<and> client (snd (do_connect unresponsive_env (Some ''-t ws://a'') connected_shell)) = Some 7
   \<and> client connected_shell = Some 0
   \<and> printed (snd (do_connect unresponsive_env (Some ''-t ws://a'') connected_shell))
       = [Connecting, ConnectionFailed ''socket is already closed.'']"
  by (simp add: do_connect_def unresponsive_env_def rejecting_env_def connected_shell_def plain_args_def
      connection_request_def connection_failed_def client_send_def print_def called_def
      strip_def is_space_def startswith_def)

text \<open>
  C10. \<open>do_disconnect\<close> never changes the saved connection parameters (nor the exchanges). After
  a disconnect whose close succeeded the handle is cleared, and the availability check that
  every later operation starts with is then exactly a connect with the saved parameters: its
  first call to the library opens a connection with the request built from them, and when
  that handshake and the liveness exchange succeed the check returns normally with the new
  connection as the live handle and the same saved parameters.
\<close>

theorem disconnect_keeps_parameters_then_reconnects:
  "client_connection_parameters (do_disconnect E sh) = client_connection_parameters sh
   \<and> exchanges (do_disconnect E sh) = exchanges sh
   \<and> (client sh = Some c0 \<and> ws_close E (history sh) c0 = None
        \<and> client_connection_parameters sh = Some l \<and> strip l \<noteq> [] \<and> contains ''-t'' l
        \<and> parse_args E (split_on CHR '' '' l) = Some args \<and> connection_request args = Inr req
      \<longrightarrow> client (do_disconnect E sh) = None
          \<and> check_connection_availability E (do_disconnect E sh)
              = do_connect E (Some l) (print CheckConnection (do_disconnect E sh))
          \<and> (\<exists>rest. history (snd (check_connection_availability E (do_disconnect E sh)))
                 = history sh @ Close c0 # Open req # rest)
          \<and> (\<forall>c r. create_connection E (history sh @ [Close c0]) req = Inr c
                 \<and> ws_send E (history sh @ [Close c0, Open req]) c ''hello'' = None
                 \<and> ws_recv E (history sh @ [Close c0, Open req, Send c ''hello'']) c = Inr (Some r)
               \<longrightarrow> check_connection_availability E (do_disconnect E sh) =
                     (Return (),
                      sh\<lparr>client := Some c, client_connection_parameters := Some l,
                         history := history sh @ [Close c0, Open req, Send c ''hello'', Recv c],
                         printed := printed sh @ [ConnectionClosed, CheckConnection, Connecting, Connected]\<rparr>)))"
proof (intro conjI impI allI)
  show "client_connection_parameters (do_disconnect E sh) = client_connection_parameters sh"
    by (simp add: do_disconnect_frame)
  show "exchanges (do_disconnect E sh) = exchanges sh"
    by (simp add: do_disconnect_frame)
next
  assume a: "client sh = Some c0 \<and> ws_close E (history sh) c0 = None
        \<and> client_connection_parameters sh = Some l \<and> strip l \<noteq> [] \<and> contains ''-t'' l
        \<and> parse_args E (split_on CHR '' '' l) = Some args \<and> connection_request args = Inr req"
  have d: "do_disconnect E sh = print ConnectionClosed ((called (Close c0) sh)\<lparr>client := None\<rparr>)"
    using a by (simp add: do_disconnect_def)
  show "client (do_disconnect E sh) = None"
    by (simp add: d print_def called_def)
  show k: "check_connection_availability E (do_disconnect E sh)
              = do_connect E (Some l) (print CheckConnection (do_disconnect E sh))"
    using a by (simp add: check_connection_availability_def Let_def d print_def called_def)
  obtain rest where "history (snd (do_connect E (Some l) (print CheckConnection (do_disconnect E sh))))
      = history (print CheckConnection (do_disconnect E sh)) @ Open req # rest"
    using do_connect_opens_saved_request [of l E args req "print CheckConnection (do_disconnect E sh)"] a
    by blast
  then show "\<exists>rest. history (snd (check_connection_availability E (do_disconnect E sh)))
                 = history sh @ Close c0 # Open req # rest"
    unfolding k by (simp add: d print_def called_def)
  fix c r
  assume t: "create_connection E (history sh @ [Close c0]) req = Inr c
                 \<and> ws_send E (history sh @ [Close c0, Open req]) c ''hello'' = None
                 \<and> ws_recv E (history sh @ [Close c0, Open req, Send c ''hello'']) c = Inr (Some r)"
  let ?sh = "print CheckConnection (do_disconnect E sh)"
  have h: "history ?sh = history sh @ [Close c0]" by (simp add: d print_def called_def)
  have v: "do_connect E (Some l) ?sh =
     (Return (), ?sh\<lparr>client := Some c, client_connection_parameters := Some l,
                     history := history ?sh @ [Open req, Send c ''hello'', Recv c],
                     printed := printed ?sh @ [Connecting, Connected]\<rparr>)"
    using a t by (intro do_connect_validated [of l E args req ?sh c r]) (simp_all add: h)
  show "check_connection_availability E (do_disconnect E sh) =
                     (Return (),
                      sh\<lparr>client := Some c, client_connection_parameters := Some l,
                         history := history sh @ [Close c0, Open req, Send c ''hello'', Recv c],
                         printed := printed sh @ [ConnectionClosed, CheckConnection, Connecting, Connected]\<rparr>)"
    unfolding k v by (simp add: d print_def called_def)
qed

theorem disconnect_keeps_parameters_then_reconnects_witness:
  "(client connected_shell = Some 0 \<and> ws_close rejecting_env (history connected_shell) 0 = None
    \<and> client_connection_parameters connected_shell = Some ''-t ws://a'' \<and> strip ''-t ws://a'' \<noteq> []
    \<and> contains ''-t'' ''-t ws://a''
    \<and> parse_args rejecting_env (split_on CHR '' '' ''-t ws://a'') = Some plain_args
    \<and> connection_request plain_args = Inr plain_request
    \<and> create_connection rejecting_env (history connected_shell @ [Close 0]) plain_request = Inr 1
    \<and> ws_send rejecting_env (history connected_shell @ [Close 0, Open plain_request]) 1 ''hello'' = None
    \<and> ws_recv rejecting_env (history connected_shell @ [Close 0, Open plain_request, Send 1 ''hello'']) 1
         = Inr (Some ''ok''))
   \<and> client (do_disconnect rejecting_env connected_shell) = None
   \<and> client_connection_parameters (do_disconnect rejecting_env connected_shell) = Some ''-t ws://a''
   \<and> check_connection_availability rejecting_env (do_disconnect rejecting_env connected_shell) =
        (Return (),
         connected_shell\<lparr>client := Some 1, client_connection_parameters := Some ''-t ws://a'',
           history := [Close 0, Open plain_request, Send 1 ''hello'', Recv 1],
           printed := [ConnectionClosed, CheckConnection, Connecting, Connected]\<rparr>)"
proof -
  have cs: "history connected_shell = []" "printed connected_shell = []"
    "client_connection_parameters connected_shell = Some ''-t ws://a''" "client connected_shell = Some 0"
    by (simp_all add: connected_shell_def)
  have h: "client connected_shell = Some 0 \<and> ws_close rejecting_env (history connected_shell) 0 = None
    \<and> client_connection_parameters connected_shell = Some ''-t ws://a'' \<and> strip ''-t ws://a'' \<noteq> []
    \<and> contains ''-t'' ''-t ws://a''
    \<and> parse_args rejecting_env (split_on CHR '' '' ''-t ws://a'') = Some plain_args
    \<and> connection_request plain_args = Inr plain_request"
    using plain_line cs by (simp add: rejecting_env_def)
  have g: "create_connection rejecting_env (history connected_shell @ [Close 0]) plain_request = Inr 1
    \<and> ws_send rejecting_env (history connected_shell @ [Close 0, Open plain_request]) 1 ''hello'' = None
    \<and> ws_recv rejecting_env (history connected_shell @ [Close 0, Open plain_request, Send 1 ''hello'']) 1
         = Inr (Some ''ok'')"
    by (simp add: rejecting_env_def cs)
  note t = disconnect_keeps_parameters_then_reconnects [of rejecting_env connected_shell 0 "''-t ws://a''" plain_args plain_request]
  have a: "client_connection_parameters (do_disconnect rejecting_env connected_shell)
             = client_connection_parameters connected_shell"
    using t by blast
  have b: "client (do_disconnect rejecting_env connected_shell) = None"
    using t h by blast
  have c: "check_connection_availability rejecting_env (do_disconnect rejecting_env connected_shell) =
        (Return (),
         connected_shell\<lparr>client := Some 1, client_connection_parameters := Some ''-t ws://a'',
           history := history connected_shell @ [Close 0, Open plain_request, Send 1 ''hello'', Recv 1],
           printed := printed connected_shell @ [ConnectionClosed, CheckConnection, Connecting, Connected]\<rparr>)"
    using t h g by blast
  show ?thesis using h g a [unfolded cs(3)] b c [unfolded cs(1,2)] by simp
qed







section \<open>Properties of the bulk exchange driver\<close>



















section \<open>Properties of the export\<close>

lemma digit_char_inj: "a < 10 \<Longrightarrow> b < 10 \<Longrightarrow> digit_char a = digit_char b \<Longrightarrow> a = b"
proof -
  assume a: "a < 10" and b: "b < 10" and e: "digit_char a = digit_char b"
  have d: "distinct ''0123456789''" by simp
  have l: "a < length ''0123456789''" "b < length ''0123456789''" using a b by simp_all
  show "a = b"
    using e nth_eq_iff_index_eq [OF d l] unfolding digit_char_def by blast
qed

lemma str_nat_nonempty: "str_nat n \<noteq> []"
  by (subst str_nat.simps) simp

lemma str_nat_inj: "str_nat m = str_nat n \<Longrightarrow> m = n"
proof (induction m arbitrary: n rule: str_nat.induct)
  case (1 m)
  show ?case
  proof (cases "m < 10")
    case True
    show ?thesis
    proof (cases "n < 10")
      case n: True
      from "1.prems" True n have "digit_char m = digit_char n"
        by (simp add: str_nat.simps [of m] str_nat.simps [of n])
      then show ?thesis using True n by (rule digit_char_inj [rotated 2])
    next
      case False
      with "1.prems" True have "[digit_char m] = str_nat (n div 10) @ [digit_char (n mod 10)]"
        by (simp add: str_nat.simps [of m] str_nat.simps [of n])
      then have "str_nat (n div 10) = []" by simp
      then show ?thesis using str_nat_nonempty by blast
    qed
  next
    case False
    show ?thesis
    proof (cases "n < 10")
      case True
      with "1.prems" False have "str_nat (m div 10) @ [digit_char (m mod 10)] = [digit_char n]"
        by (simp add: str_nat.simps [of m] str_nat.simps [of n])
      then have "str_nat (m div 10) = []" by simp
      then show ?thesis using str_nat_nonempty by blast
    next
      case n: False
      with "1.prems" False
      have e: "str_nat (m div 10) = str_nat (n div 10)" "digit_char (m mod 10) = digit_char (n mod 10)"
        by (simp_all add: str_nat.simps [of m] str_nat.simps [of n])
      have "m div 10 = n div 10" using "1.IH" [OF False e(1)] .
      moreover have "m mod 10 = n mod 10"
        using e(2) by (intro digit_char_inj) simp_all
      ultimately show ?thesis by (metis div_mult_mod_eq)
    qed
  qed
qed

lemma dict_set_fresh: "k \<notin> fst ` set d \<Longrightarrow> dict_set d k v = d @ [(k, v)]"
  by (induction d) auto

lemma foldl_dict_set_distinct:
  "distinct (map fst (acc @ pairs)) \<Longrightarrow> foldl (\<lambda>d (k, v). dict_set d k v) acc pairs = acc @ pairs"
proof (induction pairs arbitrary: acc)
  case Nil
  then show ?case by simp
next
  case (Cons p pairs)
  obtain k v where p: "p = (k, v)" by (cases p)
  have f: "k \<notin> fst ` set acc" using Cons.prems p by auto
  have d: "distinct (map fst ((acc @ [(k, v)]) @ pairs))" using Cons.prems p by simp
  show ?case
    using Cons.IH [OF d] by (simp add: p dict_set_fresh [OF f])
qed

lemma dict_of_pairs_distinct: "distinct (map fst pairs) \<Longrightarrow> dict_of_pairs pairs = pairs"
  using foldl_dict_set_distinct [of "[]" pairs] by (simp add: dict_of_pairs_def)

lemma distinct_keys_sort: "distinct (map fst d) \<Longrightarrow> distinct (map fst (sort_key fst d))"
  by (simp add: distinct_map)

lemma map_of_sort: "distinct (map fst d) \<Longrightarrow> map_of (sort_key fst d) = map_of d"
  by (rule map_of_inject_set [THEN iffD2]) (simp_all add: distinct_keys_sort)

lemma scalar_round_trip: "is_scalar v \<Longrightarrow> json_loads (json_dumps v) = v"
  by (cases v) (simp_all add: is_scalar_def)

lemma exchange_dict_keys: "distinct (map fst (exchange_dict ex))"
  by (simp add: exchange_dict_def split: option.splits)

lemma exchange_dict_scalar: "\<forall>(k, v) \<in> set (exchange_dict ex). is_scalar v"
  by (auto simp: exchange_dict_def is_scalar_def split: option.splits)

lemma str_dict_round_trip:
  assumes "distinct (map fst d)" and "\<forall>(k, v) \<in> set d. is_scalar v"
  shows "json_loads (json_dumps (PyStrDict d)) = PyStrDict (sort_key fst d)"
proof -
  have m: "map ((\<lambda>(k, v). (k, json_loads v)) \<circ> (\<lambda>(k, v). (k, json_dumps v))) (sort_key fst d)
      = sort_key fst d"
    using assms(2) by (intro map_idI) (auto simp: scalar_round_trip)
  show ?thesis
    using distinct_keys_sort [OF assms(1)] by (simp add: m dict_of_pairs_distinct)
qed


lemma insort_map_value:
  "insort_key fst (k, g k v) (map (\<lambda>(k, v). (k, g k v)) xs)
     = map (\<lambda>(k, v). (k, g k v)) (insort_key fst (k, v) xs)"
  by (induction xs) auto

lemma sort_map_value:
  "sort_key fst (map (\<lambda>(k, v). (k, g k v)) xs) = map (\<lambda>(k, v). (k, g k v)) (sort_key fst xs)"
  by (induction xs) (auto simp: insort_map_value)

lemma distinct_str_nat: "distinct ks \<Longrightarrow> distinct (map str_nat ks)"
  by (auto simp: distinct_map intro: inj_onI dest: str_nat_inj)

lemma parsed_keys:
  "map fst (map (\<lambda>(idx, ex). (str_nat idx, g ex)) xs) = map str_nat (map fst xs)"
  by (induction xs) auto

lemma exchanges_round_trip:
  assumes "distinct (map fst exs)"
  shows "json_loads (json_dumps (py_exchanges exs))
     = PyStrDict (map (\<lambda>(idx, ex). (str_nat idx, PyStrDict (sort_key fst (exchange_dict ex))))
                   (sort_key fst exs))"
proof -
  let ?parsed = "map (\<lambda>(idx, ex). (str_nat idx, PyStrDict (sort_key fst (exchange_dict ex))))
                   (sort_key fst exs)"
  have d: "json_dumps (py_exchanges exs)
      = JObject (map (\<lambda>(idx, ex). (str_nat idx, json_dumps (PyStrDict (exchange_dict ex))))
                  (sort_key fst exs))"
    unfolding py_exchanges_def json_dumps.simps
      sort_map_value [of "\<lambda>idx ex. PyStrDict (exchange_dict ex)" exs]
    by (simp add: comp_def case_prod_unfold)
  have i: "json_loads (json_dumps (PyStrDict (exchange_dict ex))) = PyStrDict (sort_key fst (exchange_dict ex))"
    for ex
    by (rule str_dict_round_trip [OF exchange_dict_keys exchange_dict_scalar])
  have l: "map (\<lambda>(k, v). (k, json_loads v))
             (map (\<lambda>(idx, ex). (str_nat idx, json_dumps (PyStrDict (exchange_dict ex)))) (sort_key fst exs))
      = ?parsed"
    unfolding map_map comp_def case_prod_unfold fst_conv snd_conv i ..
  have k: "distinct (map fst ?parsed)"
    unfolding parsed_keys by (rule distinct_str_nat [OF distinct_keys_sort [OF assms]])
  show ?thesis
    unfolding d json_loads.simps l dict_of_pairs_distinct [OF k] ..
qed

text \<open>
  C9. Claimed: parsing back the exported JSON reproduces, for each exchange, the exact field
  set and values it had in the recorder, the index included. What holds: the parsed document
  is a dict with one item per exchange, in ascending order of the index, whose key is the
  decimal string of the index (the int key does not come back) and whose value is a dict with
  exactly the keys and values that the recorded entry had: request, response, error flag,
  response time and both lengths.
\<close>

theorem exported_exchanges_round_trip:
  assumes "distinct (map fst (exchanges sh))"
  shows "json_loads (store_exchanges_to_file sh)
           = PyStrDict (map (\<lambda>(idx, ex). (str_nat idx, PyStrDict (sort_key fst (exchange_dict ex))))
                         (sort_key fst (exchanges sh)))
     \<and> (\<forall>(idx, ex) \<in> set (exchanges sh).
           \<exists>parsed fields.
             json_loads (store_exchanges_to_file sh) = PyStrDict parsed
             \<and> map_of parsed (str_nat idx) = Some (PyStrDict fields)
             \<and> map_of fields = map_of (exchange_dict ex))"
proof (intro conjI ballI)
  let ?parsed = "map (\<lambda>(idx, ex). (str_nat idx, PyStrDict (sort_key fst (exchange_dict ex))))
                   (sort_key fst (exchanges sh))"
  show r: "json_loads (store_exchanges_to_file sh) = PyStrDict ?parsed"
    unfolding store_exchanges_to_file_def by (rule exchanges_round_trip [OF assms])
  fix p assume p: "p \<in> set (exchanges sh)"
  obtain idx ex where ie: "p = (idx, ex)" by (cases p)
  have k: "distinct (map fst ?parsed)"
    unfolding parsed_keys by (rule distinct_str_nat [OF distinct_keys_sort [OF assms]])
  have m: "(str_nat idx, PyStrDict (sort_key fst (exchange_dict ex))) \<in> set ?parsed"
    using p ie by force
  have "map_of ?parsed (str_nat idx) = Some (PyStrDict (sort_key fst (exchange_dict ex)))"
    using map_of_eq_Some_iff [OF k] m by blast
  moreover have "map_of (sort_key fst (exchange_dict ex)) = map_of (exchange_dict ex)"
    by (rule map_of_sort [OF exchange_dict_keys])
  ultimately show "case p of (idx, ex) \<Rightarrow>
           \<exists>parsed fields.
             json_loads (store_exchanges_to_file sh) = PyStrDict parsed
             \<and> map_of parsed (str_nat idx) = Some (PyStrDict fields)
             \<and> map_of fields = map_of (exchange_dict ex)"
    using r ie by auto
qed


lemma recorded_shell_parsed:
  "map (\<lambda>(idx, ex). (str_nat idx, PyStrDict (sort_key fst (exchange_dict ex))))
     (sort_key fst (exchanges recorded_shell))
   = [(''0'', PyStrDict [(''IS_ERROR'', PyBool False), (''REQUEST'', PyStr ''m1''),
                         (''REQUEST_LENGTH'', PyInt 2), (''RESPONSE'', PyStr ''ok''),
                         (''RESPONSE_LENGTH'', PyInt 2), (''RESPONSE_TIME'', PyFloat 0)]),
      (''1'', PyStrDict [(''IS_ERROR'', PyBool True), (''REQUEST'', PyStr ''m2''),
                         (''REQUEST_LENGTH'', PyInt 2), (''RESPONSE'', PyStr ''send failed''),
                         (''RESPONSE_LENGTH'', PyInt 11), (''RESPONSE_TIME'', PyFloat 0)])]"
  by code_simp

theorem exported_exchanges_round_trip_witness:
  "distinct (map fst (exchanges recorded_shell))
   \<and> (1, recorded ''m2'' ''send failed'' True) \<in> set (exchanges recorded_shell)
   \<and> json_loads (store_exchanges_to_file recorded_shell)
       = PyStrDict
           [(''0'', PyStrDict [(''IS_ERROR'', PyBool False), (''REQUEST'', PyStr ''m1''),
                               (''REQUEST_LENGTH'', PyInt 2), (''RESPONSE'', PyStr ''ok''),
                               (''RESPONSE_LENGTH'', PyInt 2), (''RESPONSE_TIME'', PyFloat 0)]),
            (''1'', PyStrDict [(''IS_ERROR'', PyBool True), (''REQUEST'', PyStr ''m2''),
                               (''REQUEST_LENGTH'', PyInt 2), (''RESPONSE'', PyStr ''send failed''),
                               (''RESPONSE_LENGTH'', PyInt 11), (''RESPONSE_TIME'', PyFloat 0)])]
   \<and> (\<exists>parsed fields.
         json_loads (store_exchanges_to_file recorded_shell) = PyStrDict parsed
         \<and> map_of parsed (str_nat 1) = Some (PyStrDict fields)
         \<and> map_of fields = map_of (exchange_dict (recorded ''m2'' ''send failed'' True)))"
proof -
  have h: "distinct (map fst (exchanges recorded_shell))"
    by (simp add: recorded_shell_def)
  have m: "(1, recorded ''m2'' ''send failed'' True) \<in> set (exchanges recorded_shell)"
    by (simp add: recorded_shell_def)
  note t = exported_exchanges_round_trip [OF h]
  have a: "json_loads (store_exchanges_to_file recorded_shell)
       = PyStrDict
           [(''0'', PyStrDict [(''IS_ERROR'', PyBool False), (''REQUEST'', PyStr ''m1''),
                               (''REQUEST_LENGTH'', PyInt 2), (''RESPONSE'', PyStr ''ok''),
                               (''RESPONSE_LENGTH'', PyInt 2), (''RESPONSE_TIME'', PyFloat 0)]),
            (''1'', PyStrDict [(''IS_ERROR'', PyBool True), (''REQUEST'', PyStr ''m2''),
                               (''REQUEST_LENGTH'', PyInt 2), (''RESPONSE'', PyStr ''send failed''),
                               (''RESPONSE_LENGTH'', PyInt 11), (''RESPONSE_TIME'', PyFloat 0)])]"
    using t [THEN conjunct1] unfolding recorded_shell_parsed .
  have b: "\<exists>parsed fields.
         json_loads (store_exchanges_to_file recorded_shell) = PyStrDict parsed
         \<and> map_of parsed (str_nat 1) = Some (PyStrDict fields)
         \<and> map_of fields = map_of (exchange_dict (recorded ''m2'' ''send failed'' True))"
    using t [THEN conjunct2, rule_format, OF m] by simp
  from h m a b show ?thesis by blast
qed

text \<open>
  The claim fails on the index: the recorder's dict has the int keys 0 and 1, the parsed one
  the str keys \<open>0\<close> and \<open>1\<close>, so the two are not equal.
\<close>

theorem parsed_exchanges_differ_from_recorded:
  "json_loads (store_exchanges_to_file recorded_shell) \<noteq> py_exchanges (exchanges recorded_shell)"
  by (simp add: store_exchanges_to_file_def py_exchanges_def)

end
